theory Spec2Isabelle
  imports Main "HOL-Library.AList" "HOL-Library.Multiset" "HOL-Library.Sublist"
begin

section \<open>The resource decorator of admin-bro\<close>

text \<open>
  A shallow embedding of \<^verbatim>\<open>src/backend/decorators/resource-decorator.ts\<close>.

  Conventions of the embedding.
  \<^item> A JavaScript object used as a dictionary is the list of its own entries in the order
    in which JavaScript enumerates them: the keys that are array indices first, in
    ascending numeric order, then the other keys in the order of their insertion.
    \<^verbatim>\<open>Object.keys\<close> and \<^verbatim>\<open>Object.values\<close> are \<open>map fst\<close> and \<open>map snd\<close>. An object
    that comes from outside (\<^verbatim>\<open>options.properties\<close>, \<^verbatim>\<open>options.actions\<close>, \<^verbatim>\<open>ACTIONS\<close>) is
    given as this list.
  \<^item> \<^verbatim>\<open>obj[k]\<close> is \<open>object_get obj k\<close>: the own entry, or else the member that a plain
    object inherits from \<^verbatim>\<open>Object.prototype\<close> under that name, or else
    \<^verbatim>\<open>undefined\<close>. \<^verbatim>\<open>obj[k] = v\<close> and \<^verbatim>\<open>{ ...obj, [k]: v }\<close> are \<open>object_set k v obj\<close>.
  \<^item> An optional value is an \<open>option\<close>; a string is falsy when it is absent or empty.
  \<^item> A thrown exception is the \<open>Inl\<close> of a sum.
  \<^item> The classes \<^verbatim>\<open>PropertyDecorator\<close>, \<^verbatim>\<open>ActionDecorator\<close>, \<^verbatim>\<open>BaseProperty\<close>,
    \<^verbatim>\<open>BaseResource\<close>, \<^verbatim>\<open>ViewHelpers\<close> and the table \<^verbatim>\<open>ACTIONS\<close> are imported by the
    source file from other files; what it calls on them is a parameter of the embedding.
\<close>

subsection \<open>Objects\<close>

type_synonym 'a js_object = "(string \<times> 'a) list"

text \<open>
  What \<^verbatim>\<open>obj[k]\<close> finds: nothing (\<^verbatim>\<open>undefined\<close>), an own entry, or the member of
  \<^verbatim>\<open>Object.prototype\<close> of that name. The inherited members are functions, and
  \<^verbatim>\<open>__proto__\<close> is the prototype itself: all of them are truthy.
\<close>

datatype 'a member = Absent | Own 'a | Inherited string

definition Object_prototype :: "string list" where
  "Object_prototype =
     [''constructor'', ''__defineGetter__'', ''__defineSetter__'', ''hasOwnProperty'',
      ''__lookupGetter__'', ''__lookupSetter__'', ''isPrototypeOf'', ''propertyIsEnumerable'',
      ''toString'', ''valueOf'', ''__proto__'', ''toLocaleString'']"

definition object_get :: "'a js_object \<Rightarrow> string \<Rightarrow> 'a member" where
  "object_get obj key =
     (case map_of obj key of
        Some v \<Rightarrow> Own v
      | None \<Rightarrow> if key \<in> set Object_prototype then Inherited key else Absent)"

text \<open>
  An array index is the decimal numeral, without leading zeros, of a number below
  \<open>2\<^sup>3\<^sup>2 - 1\<close>.
\<close>

definition is_digit :: "char \<Rightarrow> bool" where
  "is_digit c = (c \<in> set ''0123456789'')"

definition index_value :: "string \<Rightarrow> nat" where
  "index_value key = foldl (\<lambda>n c. 10 * n + (of_char c - 48)) 0 key"

definition is_array_index :: "string \<Rightarrow> bool" where
  "is_array_index key =
     (case key of
        [] \<Rightarrow> False
      | c # cs \<Rightarrow>
          list_all is_digit key \<and> (c \<noteq> CHR ''0'' \<or> cs = []) \<and> index_value key < 4294967295)"


text \<open>
  A new key that is an array index goes before the first key that is none, or that is
  a larger one; any other new key goes last; a key that the object has keeps its place.
  The source assigns \<^verbatim>\<open>properties[key]\<close> only behind the test \<^verbatim>\<open>!properties[key]\<close>, so
  never under a name that the object inherits.
\<close>

fun insert_index :: "string \<Rightarrow> 'a \<Rightarrow> 'a js_object \<Rightarrow> 'a js_object" where
  "insert_index k v [] = [(k, v)]"
| "insert_index k v ((k', v') # obj) =
     (if is_array_index k' \<and> index_value k' < index_value k
      then (k', v') # insert_index k v obj
      else (k, v) # (k', v') # obj)"

definition object_set :: "string \<Rightarrow> 'a \<Rightarrow> 'a js_object \<Rightarrow> 'a js_object" where
  "object_set k v obj =
     (if k \<in> set (map fst obj) then AList.update k v obj
      else if is_array_index k then insert_index k v obj
      else obj @ [(k, v)])"

subsection \<open>Data\<close>

datatype PropertyPlace = place_list | place_show | place_edit | place_filter

datatype error =
  ConfigurationError string string
  | TypeError

text \<open>
  Modelled from the spec: \<^verbatim>\<open>BaseProperty\<close> (\<^verbatim>\<open>src/backend/adapters/base-property\<close>), built
  by the source as \<^verbatim>\<open>new BaseProperty({ path, isSortable })\<close>; its \<^verbatim>\<open>name()\<close> is the
  path ("name (stable key, equal to descriptor path)").
\<close>

record BaseProperty =
  path :: string
  isSortable :: bool

definition property_name :: "BaseProperty \<Rightarrow> string" where
  "property_name p = path p"

text \<open>
  \<^verbatim>\<open>new PropertyDecorator({ property, admin, options, resource })\<close>: the wrapped descriptor
  and what \<^verbatim>\<open>this.options.properties[name]\<close> finds for it. The type \<open>'o\<close> of the
  per-property options is left open.
\<close>

record 'o PropertyDecorator =
  property :: BaseProperty
  property_options :: "'o member"

text \<open>The methods of \<^verbatim>\<open>PropertyDecorator\<close> that the resource decorator calls.\<close>

record ('o, 'pj) PropertyDecorator_class =
  pd_isVisible :: "'o PropertyDecorator \<Rightarrow> PropertyPlace \<Rightarrow> bool"
  pd_position :: "'o PropertyDecorator \<Rightarrow> int"
  pd_isTitle :: "'o PropertyDecorator \<Rightarrow> bool"
  pd_toJSON :: "'o PropertyDecorator \<Rightarrow> 'pj"

text \<open>What the source reads from \<^verbatim>\<open>BaseResource\<close>.\<close>

record BaseResource =
  resource_id :: string
  resource_name :: string
  databaseName :: string
  databaseType :: "string option"
  resource_properties :: "BaseProperty list"

text \<open>
  Modelled from the spec: an action descriptor ("a mapping from action-name to
  {name?, label?, scope, component?, visibility-predicate, access-predicate}"). Every
  field is optional, since a user's override gives only some. The type \<open>'f\<close> of the
  predicates and of the component is left open.
\<close>

datatype ActionScope = scope_resource | scope_record

record 'f Action =
  action_name :: "string option"
  action_label :: "string option"
  action_scope :: "ActionScope option"
  action_component :: "'f option"
  action_isVisible :: "'f option"
  action_isAccessible :: "'f option"

text \<open>\<^verbatim>\<open>new ActionDecorator({ action, admin, resource })\<close>.\<close>

record 'f ActionDecorator =
  action :: "'f Action"

text \<open>The methods of \<^verbatim>\<open>ActionDecorator\<close> that the resource decorator calls.\<close>

record ('f, 'u, 'aj) ActionDecorator_class =
  ad_isResourceType :: "'f ActionDecorator \<Rightarrow> bool"
  ad_isVisible :: "'f ActionDecorator \<Rightarrow> 'u option \<Rightarrow> bool"
  ad_isAccessible :: "'f ActionDecorator \<Rightarrow> 'u option \<Rightarrow> bool"
  ad_toJSON :: "'f ActionDecorator \<Rightarrow> 'aj"

text \<open>\<^verbatim>\<open>options.parent\<close> is a string or an object \<^verbatim>\<open>{name, icon}\<close>.\<close>

datatype Parent =
  ParentString string
  | ParentObject "string option" "string option"

record ('o, 'f) ResourceOptions =
  options_name :: "string option"
  options_parent :: "Parent option"
  options_properties :: "'o js_object option"
  listProperties :: "string list option"
  showProperties :: "string list option"
  editProperties :: "string list option"
  filterProperties :: "string list option"
  options_actions :: "'f Action js_object option"

record ('o, 'f) ResourceDecorator =
  resource :: BaseResource
  options :: "('o, 'f) ResourceOptions"
  properties :: "'o PropertyDecorator js_object"
  actions :: "'f ActionDecorator js_object"

definition DEFAULT_MAX_COLUMNS_IN_LIST :: nat where
  "DEFAULT_MAX_COLUMNS_IN_LIST = 8"

subsection \<open>JavaScript operators and library functions\<close>

text \<open>\<^verbatim>\<open>a || b\<close> on an optional string \<open>a\<close>.\<close>

definition or_string :: "string option \<Rightarrow> string \<Rightarrow> string" where
  "or_string a b = (case a of None \<Rightarrow> b | Some s \<Rightarrow> if s = [] then b else s)"

text \<open>\<^verbatim>\<open>a && a.length\<close> on an optional array.\<close>

definition nonempty_array :: "'a list option \<Rightarrow> bool" where
  "nonempty_array a = (case a of None \<Rightarrow> False | Some xs \<Rightarrow> xs \<noteq> [])"

text \<open>
  \<^verbatim>\<open>array.map(f)\<close> for an \<open>f\<close> that may throw: the first exception, from left to
  right, ends the call.
\<close>

fun map_throwing :: "('a \<Rightarrow> 'e + 'b) \<Rightarrow> 'a list \<Rightarrow> 'e + 'b list" where
  "map_throwing f [] = Inr []"
| "map_throwing f (x # xs) =
     (case f x of
        Inl e \<Rightarrow> Inl e
      | Inr y \<Rightarrow> (case map_throwing f xs of Inl e \<Rightarrow> Inl e | Inr ys \<Rightarrow> Inr (y # ys)))"

text \<open>
  \<^verbatim>\<open>array.sort(comparefn)\<close>. ECMAScript leaves the algorithm to the engine, and with it
  the order of elements for which the comparator answers the same in both directions.
  The model is what V8, the engine of Node.js, does with an array of fewer than 64
  elements: it takes the elements from left to right and puts each among the sorted
  ones before it, in front of the first for which the comparator answers a negative
  number (V8 finds that place by binary search). The comparator of
  \<^verbatim>\<open>getProperties\<close> never answers 0, so a property comes out in front of the earlier
  properties of its position. A longer array V8 sorts by merging runs, and other engines
  order equal positions otherwise: no statement below says in which order properties
  of equal position follow each other.
\<close>

fun sort_insert :: "('a \<Rightarrow> 'a \<Rightarrow> int) \<Rightarrow> 'a \<Rightarrow> 'a list \<Rightarrow> 'a list" where
  "sort_insert comparefn pivot [] = [pivot]"
| "sort_insert comparefn pivot (y # ys) =
     (if comparefn pivot y < 0 then pivot # y # ys else y # sort_insert comparefn pivot ys)"

definition array_sort :: "('a \<Rightarrow> 'a \<Rightarrow> int) \<Rightarrow> 'a list \<Rightarrow> 'a list" where
  "array_sort comparefn xs = foldl (\<lambda>sorted pivot. sort_insert comparefn pivot sorted) [] xs"

subsection \<open>Queries\<close>

definition getResourceName :: "('o, 'f) ResourceDecorator \<Rightarrow> string" where
  "getResourceName this = or_string (options_name (options this)) (resource_name (resource this))"

text \<open>
  \<^verbatim>\<open>getPropertyByKey\<close>: \<^verbatim>\<open>const property = this.properties[propertyPath]\<close>, the throw
  \<^verbatim>\<open>if (!property)\<close>, and \<^verbatim>\<open>return property\<close>. What is returned is what the lookup
  found: a decorator, or an inherited member, which is truthy too.
\<close>

definition getPropertyByKey ::
  "('o, 'f) ResourceDecorator \<Rightarrow> string \<Rightarrow> error + 'o PropertyDecorator member" where
  "getPropertyByKey this propertyPath =
     (case object_get (properties this) propertyPath of
        Absent \<Rightarrow>
          Inl (ConfigurationError
            (''there is no property by the name of '' @ [CHR 0x27] @ propertyPath @ [CHR 0x27]
               @ '' in resource '' @ getResourceName this)
            ''tutorial-04-customizing-resources.html'')
      | Own p \<Rightarrow> Inr (Own p)
      | Inherited name \<Rightarrow> Inr (Inherited name))"

text \<open>\<^verbatim>\<open>this.options[`${where}Properties`]\<close>.\<close>

fun whereProperties :: "('o, 'f) ResourceOptions \<Rightarrow> PropertyPlace \<Rightarrow> string list option" where
  "whereProperties opts place_list = listProperties opts"
| "whereProperties opts place_show = showProperties opts"
| "whereProperties opts place_edit = editProperties opts"
| "whereProperties opts place_filter = filterProperties opts"

text \<open>
  \<^verbatim>\<open>this.properties[key]\<close> for a key taken from \<^verbatim>\<open>Object.keys(this.properties)\<close>,
  where the lookup finds an own entry.
\<close>

definition property_at :: "('o, 'f) ResourceDecorator \<Rightarrow> string \<Rightarrow> 'o PropertyDecorator" where
  "property_at this key = the (map_of (properties this) key)"

text \<open>
  \<^verbatim>\<open>getProperties({ where, max = 0 })\<close>. The maximum is a number of entries, a natural
  number; the source passes 8 or leaves it out. The first branch returns what
  \<^verbatim>\<open>getPropertyByKey\<close> returns for each name; the second returns decorators.
\<close>

definition getProperties ::
  "('o, 'pj) PropertyDecorator_class \<Rightarrow> ('o, 'f) ResourceDecorator \<Rightarrow> PropertyPlace \<Rightarrow> nat
     \<Rightarrow> error + 'o PropertyDecorator member list" where
  "getProperties PD this where max_items =
     (if nonempty_array (whereProperties (options this) where)
      then map_throwing (getPropertyByKey this) (the (whereProperties (options this) where))
      else
        let props =
          map (property_at this)
            (array_sort
              (\<lambda>key1 key2.
                 if pd_position PD (property_at this key1) > pd_position PD (property_at this key2)
                 then 1 else - 1)
              (filter (\<lambda>key. pd_isVisible PD (property_at this key) where)
                 (map fst (properties this))))
        in if max_items \<noteq> 0 then Inr (map Own (take max_items props)) else Inr (map Own props))"

definition getListProperties ::
  "('o, 'pj) PropertyDecorator_class \<Rightarrow> ('o, 'f) ResourceDecorator
     \<Rightarrow> error + 'o PropertyDecorator member list" where
  "getListProperties PD this = getProperties PD this place_list DEFAULT_MAX_COLUMNS_IN_LIST"

text \<open>
  \<^verbatim>\<open>properties.find(p => p.isTitle()) || properties[0]\<close>: \<open>None\<close> is \<^verbatim>\<open>undefined\<close>,
  which the method returns for a resource without properties.
\<close>

definition titleProperty ::
  "('o, 'pj) PropertyDecorator_class \<Rightarrow> ('o, 'f) ResourceDecorator \<Rightarrow> 'o PropertyDecorator option" where
  "titleProperty PD this =
     (let props = map snd (properties this) in
      case find (pd_isTitle PD) props of
        Some p \<Rightarrow> Some p
      | None \<Rightarrow> (case props of [] \<Rightarrow> None | p # _ \<Rightarrow> Some p))"

text \<open>
  \<^verbatim>\<open>Object.values(this.actions).filter(action => action.isResourceType()
  && action.isVisible(currentAdmin) && action.isAccessible(currentAdmin))\<close>.
\<close>

definition resourceActions ::
  "('f, 'u, 'aj) ActionDecorator_class \<Rightarrow> ('o, 'f) ResourceDecorator \<Rightarrow> 'u option
     \<Rightarrow> 'f ActionDecorator list" where
  "resourceActions AD this currentAdmin =
     filter
       (\<lambda>a. ad_isResourceType AD a \<and> ad_isVisible AD a currentAdmin
            \<and> ad_isAccessible AD a currentAdmin)
       (map snd (actions this))"

text \<open>
  \<^verbatim>\<open>getParent\<close>. The name is \<^verbatim>\<open>parent.name || parent\<close>: a string, or the parent object
  itself when that has no name; so the name has the type of a parent. A string has
  neither a \<^verbatim>\<open>name\<close> nor an \<^verbatim>\<open>icon\<close>.
\<close>

record ParentJSON =
  parent_name :: Parent
  parent_icon :: string

definition truthy_parent :: "Parent option \<Rightarrow> bool" where
  "truthy_parent p = (case p of None \<Rightarrow> False | Some (ParentString s) \<Rightarrow> s \<noteq> [] | Some (ParentObject n i) \<Rightarrow> True)"

definition getParent :: "('o, 'f) ResourceDecorator \<Rightarrow> ParentJSON" where
  "getParent this =
     (let parent =
        (if truthy_parent (options_parent (options this)) then the (options_parent (options this))
         else ParentString (databaseName (resource this)));
        default_icon = ''icon-'' @ or_string (databaseType (resource this)) ''database''
      in case parent of
           ParentString s \<Rightarrow> \<lparr>parent_name = ParentString s, parent_icon = default_icon\<rparr>
         | ParentObject n i \<Rightarrow>
             \<lparr>parent_name = (if or_string n [] \<noteq> [] then ParentString (or_string n []) else parent),
              parent_icon = or_string i default_icon\<rparr>)"

text \<open>
  \<^verbatim>\<open>toJSON\<close>. The fields are computed in the order of the object literal, so the first
  exception in this order is the one thrown: \<^verbatim>\<open>this.titleProperty().toJSON()\<close> is a
  \<^verbatim>\<open>TypeError\<close> when there is no property at all, each \<^verbatim>\<open>getProperties\<close> may throw
  its \<^verbatim>\<open>ConfigurationError\<close>, and \<^verbatim>\<open>property.toJSON()\<close> is a \<^verbatim>\<open>TypeError\<close> on what is
  no decorator. \<^verbatim>\<open>resourceActionUrl\<close> is the method of \<^verbatim>\<open>ViewHelpers\<close>.
\<close>

record ('pj, 'aj) ResourceJSON =
  json_id :: string
  json_name :: string
  json_parent :: ParentJSON
  json_href :: string
  json_titleProperty :: 'pj
  json_resourceActions :: "'aj list"
  json_listProperties :: "'pj list"
  json_editProperties :: "'pj list"
  json_showProperties :: "'pj list"
  json_filterProperties :: "'pj list"

definition member_toJSON ::
  "('o, 'pj) PropertyDecorator_class \<Rightarrow> 'o PropertyDecorator member \<Rightarrow> error + 'pj" where
  "member_toJSON PD m = (case m of Own p \<Rightarrow> Inr (pd_toJSON PD p) | _ \<Rightarrow> Inl TypeError)"

definition properties_toJSON ::
  "('o, 'pj) PropertyDecorator_class \<Rightarrow> ('o, 'f) ResourceDecorator \<Rightarrow> PropertyPlace \<Rightarrow> nat
     \<Rightarrow> error + 'pj list" where
  "properties_toJSON PD this where max_items =
     (case getProperties PD this where max_items of
        Inl e \<Rightarrow> Inl e
      | Inr ms \<Rightarrow> map_throwing (member_toJSON PD) ms)"

definition toJSON ::
  "('o, 'pj) PropertyDecorator_class \<Rightarrow> ('f, 'u, 'aj) ActionDecorator_class
     \<Rightarrow> (string \<Rightarrow> string \<Rightarrow> string) \<Rightarrow> ('o, 'f) ResourceDecorator \<Rightarrow> 'u option
     \<Rightarrow> error + ('pj, 'aj) ResourceJSON" where
  "toJSON PD AD resourceActionUrl this currentAdmin =
     (let ident = resource_id (resource this);
          nm = getResourceName this;
          parent = getParent this;
          href = resourceActionUrl (resource_id (resource this)) ''list''
      in case titleProperty PD this of
           None \<Rightarrow> Inl TypeError
         | Some title \<Rightarrow>
        (let ras = map (ad_toJSON AD) (resourceActions AD this currentAdmin)
         in case properties_toJSON PD this place_list DEFAULT_MAX_COLUMNS_IN_LIST of
              Inl e \<Rightarrow> Inl e
            | Inr lps \<Rightarrow>
           (case properties_toJSON PD this place_edit 0 of
              Inl e \<Rightarrow> Inl e
            | Inr eps \<Rightarrow>
           (case properties_toJSON PD this place_show 0 of
              Inl e \<Rightarrow> Inl e
            | Inr sps \<Rightarrow>
           (case properties_toJSON PD this place_filter 0 of
              Inl e \<Rightarrow> Inl e
            | Inr fps \<Rightarrow>
                Inr \<lparr>json_id = ident, json_name = nm, json_parent = parent, json_href = href,
                     json_titleProperty = pd_toJSON PD title,
                     json_resourceActions = ras,
                     json_listProperties = lps,
                     json_editProperties = eps,
                     json_showProperties = sps,
                     json_filterProperties = fps\<rparr>)))))"

subsection \<open>Construction\<close>

text \<open>
  \<^verbatim>\<open>decorateProperties\<close>. The \<^verbatim>\<open>reduce\<close> builds \<^verbatim>\<open>{ ...memo, [property.name()]: decorator }\<close>
  for each descriptor in turn; then each key of \<^verbatim>\<open>options.properties\<close> for which
  \<^verbatim>\<open>properties[key]\<close> is falsy and which holds no dot gets a decorator of a new,
  non-sortable \<^verbatim>\<open>BaseProperty\<close>. \<^verbatim>\<open>this.options.properties && this.options.properties[key]\<close>
  is what the decorator gets as the user's options for the key.
\<close>

definition options_for :: "('o, 'f) ResourceDecorator \<Rightarrow> string \<Rightarrow> 'o member" where
  "options_for this key =
     (case options_properties (options this) of None \<Rightarrow> Absent | Some ps \<Rightarrow> object_get ps key)"

definition decorateProperties :: "('o, 'f) ResourceDecorator \<Rightarrow> 'o PropertyDecorator js_object" where
  "decorateProperties this =
     (let resourceProperties = resource_properties (resource this);
          props =
            fold
              (\<lambda>p memo.
                 object_set (property_name p)
                   \<lparr>property = p, property_options = options_for this (property_name p)\<rparr> memo)
              resourceProperties []
      in case options_properties (options this) of
           None \<Rightarrow> props
         | Some ps \<Rightarrow>
             fold
               (\<lambda>key acc.
                  if object_get acc key = Absent \<and> CHR ''.'' \<notin> set key
                  then object_set key
                         \<lparr>property = \<lparr>path = key, isSortable = False\<rparr>,
                          property_options = options_for this key\<rparr> acc
                  else acc)
               (map fst ps) props)"

text \<open>
  \<^verbatim>\<open>_.merge\<close> of lodash, on objects whose values are action descriptors: each key of the
  source is assigned to the destination; where the destination has the key already the
  two descriptors are merged field by field, a field that the source defines winning.
\<close>

definition merge_field :: "'a option \<Rightarrow> 'a option \<Rightarrow> 'a option" where
  "merge_field dst src = (case src of None \<Rightarrow> dst | Some v \<Rightarrow> Some v)"

definition merge_action :: "'f Action \<Rightarrow> 'f Action \<Rightarrow> 'f Action" where
  "merge_action dst src =
     \<lparr>action_name = merge_field (action_name dst) (action_name src),
      action_label = merge_field (action_label dst) (action_label src),
      action_scope = merge_field (action_scope dst) (action_scope src),
      action_component = merge_field (action_component dst) (action_component src),
      action_isVisible = merge_field (action_isVisible dst) (action_isVisible src),
      action_isAccessible = merge_field (action_isAccessible dst) (action_isAccessible src)\<rparr>"

fun merge :: "'f Action js_object \<Rightarrow> 'f Action js_object \<Rightarrow> 'f Action js_object" where
  "merge object [] = object"
| "merge object ((key, srcValue) # source) =
     merge
       (object_set key
          (case map_of object key of None \<Rightarrow> srcValue | Some objValue \<Rightarrow> merge_action objValue srcValue)
          object)
       source"

text \<open>
  \<^verbatim>\<open>decorateActions\<close>: \<^verbatim>\<open>_.merge({}, ACTIONS, this.options.actions || {})\<close>, then for each
  key \<^verbatim>\<open>name = name || key\<close>, \<^verbatim>\<open>label = label || key\<close> and the decorator.
\<close>

definition mergedActions :: "'f Action js_object \<Rightarrow> ('o, 'f) ResourceDecorator \<Rightarrow> 'f Action js_object" where
  "mergedActions ACTIONS this =
     merge (merge [] ACTIONS)
       (case options_actions (options this) of None \<Rightarrow> [] | Some a \<Rightarrow> a)"

definition decorateActions ::
  "'f Action js_object \<Rightarrow> ('o, 'f) ResourceDecorator \<Rightarrow> 'f ActionDecorator js_object" where
  "decorateActions ACTIONS this =
     map
       (\<lambda>(key, a).
          (key,
           \<lparr>action =
              a\<lparr>action_name := Some (or_string (action_name a) key),
                action_label := Some (or_string (action_label a) key)\<rparr>\<rparr>))
       (mergedActions ACTIONS this)"

text \<open>
  The constructor: \<^verbatim>\<open>this.options.properties = this.options.properties || {}\<close>, then the
  properties, then the actions.
\<close>

definition new_ResourceDecorator ::
  "'f Action js_object \<Rightarrow> BaseResource \<Rightarrow> ('o, 'f) ResourceOptions \<Rightarrow> ('o, 'f) ResourceDecorator" where
  "new_ResourceDecorator ACTIONS res opts =
     (let this0 =
            \<lparr>resource = res,
             options = opts\<lparr>options_properties :=
               Some (case options_properties opts of None \<Rightarrow> [] | Some ps \<Rightarrow> ps)\<rparr>,
             properties = [], actions = []\<rparr>;
          this1 = this0\<lparr>properties := decorateProperties this0\<rparr>
      in this1\<lparr>actions := decorateActions ACTIONS this1\<rparr>)"

text \<open>
  The options with the order for one place replaced: what a user writes as
  \<^verbatim>\<open>listProperties: [...]\<close> (or leaves out) besides the other options. It is used to
  state properties, not by the source.
\<close>

fun with_whereProperties ::
  "('o, 'f) ResourceOptions \<Rightarrow> PropertyPlace \<Rightarrow> string list option \<Rightarrow> ('o, 'f) ResourceOptions" where
  "with_whereProperties opts place_list v = opts\<lparr>listProperties := v\<rparr>"
| "with_whereProperties opts place_show v = opts\<lparr>showProperties := v\<rparr>"
| "with_whereProperties opts place_edit v = opts\<lparr>editProperties := v\<rparr>"
| "with_whereProperties opts place_filter v = opts\<lparr>filterProperties := v\<rparr>"

text \<open>
  The positions of what a call of \<^verbatim>\<open>getProperties\<close> returned, entry by entry; what is
  no decorator has none. It is used to state properties, not by the source.
\<close>

definition member_position ::
  "('o, 'pj) PropertyDecorator_class \<Rightarrow> 'o PropertyDecorator member \<Rightarrow> int option" where
  "member_position PD m = (case m of Own p \<Rightarrow> Some (pd_position PD p) | _ \<Rightarrow> None)"

definition result_positions ::
  "('o, 'pj) PropertyDecorator_class \<Rightarrow> error + 'o PropertyDecorator member list
     \<Rightarrow> error + int option list" where
  "result_positions PD r =
     (case r of Inl e \<Rightarrow> Inl e | Inr ms \<Rightarrow> Inr (map (member_position PD) ms))"

subsection \<open>An instance\<close>

text \<open>
  A resource, options and collaborators to run the definitions on. The per-property
  option is a position; a property without one has position 100, the property named
  \<open>password\<close> is hidden everywhere, the one named \<open>createdAt\<close> is hidden where
  records are edited, and the one named \<open>title\<close> is the title.
\<close>

definition example_PD :: "(int, string) PropertyDecorator_class" where
  "example_PD =
     \<lparr>pd_isVisible =
        (\<lambda>p place. path (property p) \<noteq> ''password''
           \<and> \<not> (place = place_edit \<and> path (property p) = ''createdAt'')),
      pd_position = (\<lambda>p. case property_options p of Own n \<Rightarrow> n | _ \<Rightarrow> 100),
      pd_isTitle = (\<lambda>p. path (property p) = ''title''),
      pd_toJSON = (\<lambda>p. path (property p))\<rparr>"

definition example_AD :: "(bool, string, string) ActionDecorator_class" where
  "example_AD =
     \<lparr>ad_isResourceType = (\<lambda>a. action_scope (action a) = Some scope_resource),
      ad_isVisible = (\<lambda>a currentAdmin. action_isVisible (action a) \<noteq> Some False),
      ad_isAccessible = (\<lambda>a currentAdmin. action_isAccessible (action a) \<noteq> Some False),
      ad_toJSON = (\<lambda>a. or_string (action_label (action a)) [])\<rparr>"

definition example_ACTIONS :: "bool Action js_object" where
  "example_ACTIONS =
     [(''new'',
       \<lparr>action_name = Some ''new'', action_label = None, action_scope = Some scope_resource,
        action_component = None, action_isVisible = Some True, action_isAccessible = None\<rparr>),
      (''delete'',
       \<lparr>action_name = Some ''delete'', action_label = Some ''Delete'',
        action_scope = Some scope_record, action_component = Some False,
        action_isVisible = Some True, action_isAccessible = Some True\<rparr>)]"

definition example_resource :: BaseResource where
  "example_resource =
     \<lparr>resource_id = ''User'', resource_name = ''User'', databaseName = ''main'',
      databaseType = Some ''mongodb'',
      resource_properties =
        [\<lparr>path = ''email'', isSortable = True\<rparr>, \<lparr>path = ''title'', isSortable = True\<rparr>,
         \<lparr>path = ''password'', isSortable = False\<rparr>, \<lparr>path = ''createdAt'', isSortable = True\<rparr>]\<rparr>"

definition example_options :: "(int, bool) ResourceOptions" where
  "example_options =
     \<lparr>options_name = None, options_parent = None,
      options_properties = Some [(''title'', 7), (''fullName'', 3), (''address.city'', 5)],
      listProperties = None, showProperties = None, editProperties = None,
      filterProperties = None,
      options_actions =
        Some
          [(''delete'',
            \<lparr>action_name = None, action_label = Some ''Remove'', action_scope = None,
             action_component = None, action_isVisible = None, action_isAccessible = None\<rparr>),
           (''export'',
            \<lparr>action_name = None, action_label = None, action_scope = Some scope_resource,
             action_component = None, action_isVisible = None,
             action_isAccessible = Some False\<rparr>)]\<rparr>"

definition example_decorator :: "(int, bool) ResourceDecorator" where
  "example_decorator = new_ResourceDecorator example_ACTIONS example_resource example_options"

text \<open>The same resource with an explicit order for the list.\<close>

definition ordered_decorator :: "(int, bool) ResourceDecorator" where
  "ordered_decorator =
     new_ResourceDecorator example_ACTIONS example_resource
       (example_options\<lparr>listProperties := Some [''password'', ''email'']\<rparr>)"

text \<open>A resource of nine columns, all of them named in \<^verbatim>\<open>listProperties\<close>.\<close>

definition wide_resource :: BaseResource where
  "wide_resource =
     \<lparr>resource_id = ''Wide'', resource_name = ''Wide'', databaseName = ''main'',
      databaseType = None,
      resource_properties =
        map (\<lambda>n. \<lparr>path = n, isSortable = True\<rparr>)
          [''c1'', ''c2'', ''c3'', ''c4'', ''c5'', ''c6'', ''c7'', ''c8'', ''c9'']\<rparr>"

definition wide_options :: "(int, bool) ResourceOptions" where
  "wide_options =
     \<lparr>options_name = None, options_parent = None, options_properties = None,
      listProperties =
        Some [''c1'', ''c2'', ''c3'', ''c4'', ''c5'', ''c6'', ''c7'', ''c8'', ''c9''],
      showProperties = None, editProperties = None, filterProperties = None,
      options_actions = None\<rparr>"

definition wide_decorator :: "(int, bool) ResourceDecorator" where
  "wide_decorator = new_ResourceDecorator example_ACTIONS wide_resource wide_options"

definition wide_columns :: "int PropertyDecorator list" where
  "wide_columns =
     [\<lparr>property = \<lparr>path = ''c1'', isSortable = True\<rparr>, property_options = Absent\<rparr>,
      \<lparr>property = \<lparr>path = ''c2'', isSortable = True\<rparr>, property_options = Absent\<rparr>,
      \<lparr>property = \<lparr>path = ''c3'', isSortable = True\<rparr>, property_options = Absent\<rparr>,
      \<lparr>property = \<lparr>path = ''c4'', isSortable = True\<rparr>, property_options = Absent\<rparr>,
      \<lparr>property = \<lparr>path = ''c5'', isSortable = True\<rparr>, property_options = Absent\<rparr>,
      \<lparr>property = \<lparr>path = ''c6'', isSortable = True\<rparr>, property_options = Absent\<rparr>,
      \<lparr>property = \<lparr>path = ''c7'', isSortable = True\<rparr>, property_options = Absent\<rparr>,
      \<lparr>property = \<lparr>path = ''c8'', isSortable = True\<rparr>, property_options = Absent\<rparr>,
      \<lparr>property = \<lparr>path = ''c9'', isSortable = True\<rparr>, property_options = Absent\<rparr>]"



text \<open>The nine columns without an order of the user's.\<close>

definition capped_decorator :: "(int, bool) ResourceDecorator" where
  "capped_decorator =
     new_ResourceDecorator example_ACTIONS wide_resource (wide_options\<lparr>listProperties := None\<rparr>)"

text \<open>The same resource under the name that the options give it.\<close>

definition named_decorator :: "(int, bool) ResourceDecorator" where
  "named_decorator =
     new_ResourceDecorator example_ACTIONS example_resource
       (example_options\<lparr>options_name := Some ''Members''\<rparr>)"

text \<open>
  A resource with columns named by numbers, and options for one more number, for a
  new name and for a name that every object inherits.
\<close>

definition numbered_resource :: BaseResource where
  "numbered_resource =
     \<lparr>resource_id = ''Numbered'', resource_name = ''Numbered'', databaseName = ''main'',
      databaseType = None,
      resource_properties =
        [\<lparr>path = ''name'', isSortable = True\<rparr>, \<lparr>path = ''10'', isSortable = True\<rparr>,
         \<lparr>path = ''9'', isSortable = True\<rparr>]\<rparr>"

definition numbered_decorator :: "(int, bool) ResourceDecorator" where
  "numbered_decorator =
     new_ResourceDecorator example_ACTIONS numbered_resource
       (wide_options\<lparr>listProperties := None,
          options_properties := Some [(''2'', 1), (''note'', 2)]\<rparr>)"

definition inheriting_decorator :: "(int, bool) ResourceDecorator" where
  "inheriting_decorator =
     new_ResourceDecorator example_ACTIONS example_resource
       (example_options\<lparr>options_properties := Some [(''toString'', 1)]\<rparr>)"

text \<open>The address of an action of a resource, as \<^verbatim>\<open>ViewHelpers\<close> builds it.\<close>

definition example_url :: "string \<Rightarrow> string \<Rightarrow> string" where
  "example_url resourceId actionName =
     ''/admin/resources/'' @ resourceId @ ''/actions/'' @ actionName"

section \<open>Properties\<close>

subsection \<open>Objects\<close>


lemma object_get_Own: "object_get obj key = Own v \<longleftrightarrow> map_of obj key = Some v"
  by (auto simp: object_get_def split: option.splits)


lemma insert_index_map_of:
  "k \<notin> set (map fst obj) \<Longrightarrow> map_of (insert_index k v obj) = (map_of obj)(k \<mapsto> v)"
  by (induction k v obj rule: insert_index.induct) (auto simp: fun_upd_twist)

lemma object_set_map_of: "map_of (object_set k v obj) = (map_of obj)(k \<mapsto> v)"
proof (cases "k \<in> set (map fst obj)")
  case True
  then show ?thesis by (simp add: object_set_def update_conv')
next
  case False
  then have "map_of obj k = None" by (simp add: map_of_eq_None_iff)
  then have "map_of (obj @ [(k, v)]) = (map_of obj)(k \<mapsto> v)"
    by (auto simp: fun_eq_iff map_add_def split: option.splits)
  with False show ?thesis
    by (simp add: object_set_def insert_index_map_of del: map_of_append)
qed

lemma insert_index_keys: "fst ` set (insert_index k v obj) = insert k (fst ` set obj)"
  by (induction k v obj rule: insert_index.induct) (simp_all add: insert_commute)

lemma object_set_keys: "fst ` set (object_set k v obj) = insert k (fst ` set obj)"
  by (auto simp: object_set_def dom_update insert_index_keys)

lemma insert_index_distinct:
  "k \<notin> set (map fst obj) \<Longrightarrow> distinct (map fst obj) \<Longrightarrow>
   distinct (map fst (insert_index k v obj))"
  by (induction k v obj rule: insert_index.induct) (auto simp: insert_index_keys)

lemma object_set_distinct:
  "distinct (map fst obj) \<Longrightarrow> distinct (map fst (object_set k v obj))"
  by (simp add: object_set_def distinct_update insert_index_distinct)



lemma object_set_last:
  "\<not> is_array_index k \<Longrightarrow> k \<notin> set (map fst obj) \<Longrightarrow>
   map fst (object_set k v obj) = map fst obj @ [k]"
  by (simp add: object_set_def)





text \<open>The first loop of \<^verbatim>\<open>decorateProperties\<close>, and any loop of assignments.\<close>

lemma fold_object_set_distinct:
  "distinct (map fst acc) \<Longrightarrow>
   distinct (map fst (fold (\<lambda>x. object_set (k x) (v x)) xs acc))"
  by (induction xs arbitrary: acc) (simp_all add: object_set_distinct)








lemma synthesized_distinct:
  "distinct (map fst acc) \<Longrightarrow>
   distinct (map fst
     (fold (\<lambda>key acc. if object_get acc key = Absent \<and> P key then object_set key (v key) acc else acc)
        keys acc))"
  by (induction keys arbitrary: acc) (simp_all add: object_set_distinct)






lemma decorateProperties_distinct: "distinct (map fst (decorateProperties this))"
  unfolding decorateProperties_def Let_def
  by (auto split: option.splits intro!: synthesized_distinct fold_object_set_distinct)


subsection \<open>The instance, evaluated\<close>

lemma not_array_index:
  "\<not> is_digit c \<Longrightarrow> \<not> is_array_index (c # cs)"
  by (simp add: is_array_index_def)

lemma example_decorator_properties:
  "properties example_decorator =
     [(''email'', \<lparr>property = \<lparr>path = ''email'', isSortable = True\<rparr>, property_options = Absent\<rparr>),
      (''title'', \<lparr>property = \<lparr>path = ''title'', isSortable = True\<rparr>, property_options = Own 7\<rparr>),
      (''password'', \<lparr>property = \<lparr>path = ''password'', isSortable = False\<rparr>, property_options = Absent\<rparr>),
      (''createdAt'', \<lparr>property = \<lparr>path = ''createdAt'', isSortable = True\<rparr>, property_options = Absent\<rparr>),
      (''fullName'', \<lparr>property = \<lparr>path = ''fullName'', isSortable = False\<rparr>, property_options = Own 3\<rparr>)]"
  by (simp add: example_decorator_def new_ResourceDecorator_def decorateProperties_def
      example_resource_def example_options_def options_for_def property_name_def
      object_set_def object_get_def Object_prototype_def not_array_index is_digit_def)

lemma numbered_decorator_properties:
  "map fst (properties numbered_decorator) = [''2'', ''9'', ''10'', ''name'', ''note'']"
  by (simp add: numbered_decorator_def new_ResourceDecorator_def decorateProperties_def
      numbered_resource_def wide_options_def options_for_def property_name_def
      object_set_def object_get_def Object_prototype_def is_array_index_def is_digit_def
      index_value_def)

lemma inheriting_decorator_properties:
  "map fst (properties inheriting_decorator) = [''email'', ''title'', ''password'', ''createdAt'']"
  by (simp add: inheriting_decorator_def new_ResourceDecorator_def decorateProperties_def
      example_resource_def example_options_def options_for_def property_name_def
      object_set_def object_get_def Object_prototype_def not_array_index is_digit_def)

lemma ordered_decorator_properties:
  "properties ordered_decorator = properties example_decorator"
  unfolding example_decorator_properties
  by (simp add: ordered_decorator_def new_ResourceDecorator_def decorateProperties_def
      example_resource_def example_options_def options_for_def property_name_def
      object_set_def object_get_def Object_prototype_def not_array_index is_digit_def)

lemma named_decorator_properties:
  "properties named_decorator = properties example_decorator"
  unfolding example_decorator_properties
  by (simp add: named_decorator_def new_ResourceDecorator_def decorateProperties_def
      example_resource_def example_options_def options_for_def property_name_def
      object_set_def object_get_def Object_prototype_def not_array_index is_digit_def)

lemma wide_decorator_properties:
  "properties wide_decorator = map (\<lambda>p. (path (property p), p)) wide_columns"
  by (simp add: wide_decorator_def new_ResourceDecorator_def decorateProperties_def
      wide_resource_def wide_options_def options_for_def property_name_def wide_columns_def
      object_set_def object_get_def Object_prototype_def not_array_index is_digit_def)

lemma wide_decorator_order:
  "listProperties (options wide_decorator)
     = Some [''c1'', ''c2'', ''c3'', ''c4'', ''c5'', ''c6'', ''c7'', ''c8'', ''c9'']"
  by (simp add: wide_decorator_def new_ResourceDecorator_def wide_options_def Let_def)

lemma wide_decorator_list:
  "getListProperties example_PD wide_decorator = Inr (map Own wide_columns)"
  by (simp add: getListProperties_def getProperties_def nonempty_array_def getPropertyByKey_def
      object_get_def wide_decorator_properties wide_decorator_order wide_columns_def)

lemma capped_decorator_properties:
  "properties capped_decorator = map (\<lambda>p. (path (property p), p)) wide_columns"
  by (simp add: capped_decorator_def new_ResourceDecorator_def decorateProperties_def
      wide_resource_def wide_options_def options_for_def property_name_def wide_columns_def
      object_set_def object_get_def Object_prototype_def not_array_index is_digit_def)

subsection \<open>Sorting by position\<close>

text \<open>
  With the comparator of \<^verbatim>\<open>getProperties\<close> the sort is the library's insertion sort by
  key, of the array read from its end. What is used of it below is that the result holds
  the same elements and is ordered by the key.
\<close>

lemma sort_insert_position:
  "sort_insert (\<lambda>a b. if f a > f b then 1 else - 1) x ys = insort_key (f :: 'a \<Rightarrow> int) x ys"
  by (induction ys) simp_all

lemma array_sort_foldr:
  "foldl (\<lambda>sorted pivot. sort_insert comparefn pivot sorted) acc xs
     = foldr (sort_insert comparefn) (rev xs) acc"
  by (induction xs arbitrary: acc) simp_all

lemma array_sort_position:
  "array_sort (\<lambda>a b. if f a > f b then 1 else - 1) xs = sort_key (f :: 'a \<Rightarrow> int) (rev xs)"
proof -
  have "foldr (sort_insert (\<lambda>a b. if f a > f b then 1 else - 1)) ys [] = sort_key f ys" for ys
    by (induction ys) (simp_all add: sort_insert_position sort_key_def)
  then show ?thesis
    by (simp only: array_sort_def array_sort_foldr)
qed

lemma map_insort_key_after:
  "map f (insort_key (\<lambda>a. g (f a)) x xs) = insort_key g (f x) (map f xs)"
  by (induction xs) auto

lemma map_sort_key_after: "map f (sort_key (\<lambda>a. g (f a)) xs) = sort_key g (map f xs)"
  by (induction xs) (simp_all add: map_insort_key_after)

lemma sorted_distinct_strict:
  assumes "mset ps = mset qs" and "sorted (map f ps)" and "distinct (map f qs)"
  shows "sorted_wrt (<) (map (f :: 'a \<Rightarrow> int) ps)"
proof -
  have "mset (map f ps) = mset (map f qs)"
    using assms(1) by (metis mset_map)
  with assms(3) have "distinct (map f ps)"
    by (metis mset_eq_imp_distinct_iff)
  with assms(2) show ?thesis by (simp add: strict_sorted_iff)
qed

text \<open>A sorted list is determined by its elements.\<close>

lemma sorted_positions:
  assumes "mset ps = mset qs" and "sorted (map f ps)"
  shows "map (f :: 'a \<Rightarrow> int) ps = sort (map f qs)"
proof -
  have "mset (map f ps) = mset (map f qs)"
    using assms(1) by (metis mset_map)
  then show ?thesis
    using assms(2) by (metis properties_for_sort)
qed

subsection \<open>The constructor\<close>

lemma map_of_distinct_values:
  "distinct (map fst al) \<Longrightarrow> map (\<lambda>k. the (map_of al k)) (map fst al) = map snd al"
  by (induction al) (auto simp: rev_image_eqI)

lemma map_of_property_at:
  "k \<in> set (map fst (properties this)) \<Longrightarrow>
   map_of (properties this) k = Some (property_at this k)"
  unfolding property_at_def by (metis map_of_eq_None_iff option.collapse set_map)

lemma new_ResourceDecorator_fields:
  "resource (new_ResourceDecorator ACTIONS res opts) = res"
  "whereProperties (options (new_ResourceDecorator ACTIONS res opts)) w = whereProperties opts w"
  "options_name (options (new_ResourceDecorator ACTIONS res opts)) = options_name opts"
  "options_parent (options (new_ResourceDecorator ACTIONS res opts)) = options_parent opts"
  by (cases w; simp add: new_ResourceDecorator_def Let_def)+

lemma new_ResourceDecorator_distinct:
  "distinct (map fst (properties (new_ResourceDecorator ACTIONS res opts)))"
  by (simp add: new_ResourceDecorator_def Let_def decorateProperties_distinct)

lemma whereProperties_with:
  "whereProperties (with_whereProperties opts w v) w = v"
  by (cases w) simp_all

subsection \<open>The two branches of the property query\<close>

lemma getPropertyByKey_own:
  "k \<in> set (map fst (properties this)) \<Longrightarrow>
   getPropertyByKey this k = Inr (Own (property_at this k))"
  using map_of_property_at [of k this]
  by (simp add: getPropertyByKey_def object_get_def del: set_map)

lemma map_throwing_found:
  "set keys \<subseteq> set (map fst (properties this)) \<Longrightarrow>
   map_throwing (getPropertyByKey this) keys = Inr (map Own (map (property_at this) keys))"
proof (induction keys)
  case Nil
  then show ?case by simp
next
  case (Cons k keys)
  then have "getPropertyByKey this k = Inr (Own (property_at this k))"
    by (intro getPropertyByKey_own) simp
  with Cons show ?case by simp
qed

text \<open>
  Without an order of the user's the result is the visible decorators in an order
  that ascends by position, cut to the maximum.
\<close>

lemma getProperties_visible_sorted:
  assumes "distinct (map fst (properties this))"
    and "\<not> nonempty_array (whereProperties (options this) w)"
  shows "\<exists>ps. mset ps = mset (filter (\<lambda>p. pd_isVisible PD p w) (map snd (properties this)))
           \<and> sorted (map (pd_position PD) ps)
           \<and> (\<forall>m. getProperties PD this w m
                    = Inr (map Own (if m \<noteq> 0 then take m ps else ps)))"
proof -
  let ?L = "property_at this"
  let ?visible = "filter (\<lambda>p. pd_isVisible PD p w) (map snd (properties this))"
  have vals: "map ?L (map fst (properties this)) = map snd (properties this)"
    using map_of_distinct_values [OF assms(1)] by (simp add: property_at_def [abs_def])
  have "map ?L
          (array_sort
             (\<lambda>k1 k2. if pd_position PD (?L k1) > pd_position PD (?L k2) then 1 else - 1)
             (filter (\<lambda>k. pd_isVisible PD (?L k) w) (map fst (properties this))))
     = map ?L
          (sort_key (\<lambda>k. pd_position PD (?L k))
             (rev (filter ((\<lambda>p. pd_isVisible PD p w) \<circ> ?L) (map fst (properties this)))))"
    by (simp add: array_sort_position [where f = "\<lambda>k. pd_position PD (?L k)"] comp_def)
  also have "\<dots> = sort_key (pd_position PD)
      (rev (filter (\<lambda>p. pd_isVisible PD p w) (map ?L (map fst (properties this)))))"
    by (simp only: map_sort_key_after filter_map rev_map)
  finally have "getProperties PD this w m
      = Inr (map Own (if m \<noteq> 0 then take m (sort_key (pd_position PD) (rev ?visible))
                      else sort_key (pd_position PD) (rev ?visible)))" for m
    using assms(2) by (simp add: getProperties_def Let_def vals [unfolded map_map])
  then show ?thesis
    by (intro exI [of _ "sort_key (pd_position PD) (rev ?visible)"]) simp
qed

lemma getProperties_not_overridden:
  "\<not> nonempty_array (whereProperties (options this) w) \<Longrightarrow>
   \<not> nonempty_array (whereProperties (options that) w) \<Longrightarrow>
   properties that = properties this \<Longrightarrow>
   getProperties PD this w m = getProperties PD that w m"
  by (simp add: getProperties_def property_at_def [abs_def])

lemma result_positions_own:
  "result_positions PD (Inr (map Own ps)) = Inr (map Some (map (pd_position PD) ps))"
  by (simp add: result_positions_def member_position_def comp_def)

subsection \<open>An explicit order\<close>

text \<open>
  Claim C1. Where the options give a non-empty order for the place and every name in it
  is a key of the decorated properties, \<^verbatim>\<open>getProperties\<close> returns the decorators stored
  under these names, in the order given, whatever the decorators' positions and
  visibility and whatever \<^verbatim>\<open>max\<close>.
\<close>

theorem getProperties_override:
  assumes "whereProperties (options this) w = Some keys"
    and "keys \<noteq> []"
    and "set keys \<subseteq> set (map fst (properties this))"
  shows "\<exists>ps. (\<forall>PD max_items. getProperties PD this w max_items = Inr (map Own ps))
           \<and> length ps = length keys
           \<and> map Some ps = map (map_of (properties this)) keys"
proof (intro exI conjI allI)
  fix PD :: "('a, 'c) PropertyDecorator_class" and max_items
  show "getProperties PD this w max_items = Inr (map Own (map (property_at this) keys))"
    using assms by (simp add: getProperties_def nonempty_array_def map_throwing_found)
  show "length (map (property_at this) keys) = length keys" by simp
  show "map Some (map (property_at this) keys) = map (map_of (properties this)) keys"
  proof -
    have "\<forall>k\<in>set keys. map_of (properties this) k = Some (property_at this k)"
      using assms(3) map_of_property_at by blast
    then show ?thesis by simp
  qed
qed

theorem getProperties_override_witness:
  "whereProperties (options ordered_decorator) place_list = Some [''password'', ''email'']
   \<and> [''password'', ''email''] \<noteq> []
   \<and> set [''password'', ''email''] \<subseteq> set (map fst (properties ordered_decorator))
   \<and> getProperties example_PD ordered_decorator place_list 1
       = Inr [Own \<lparr>property = \<lparr>path = ''password'', isSortable = False\<rparr>, property_options = Absent\<rparr>,
              Own \<lparr>property = \<lparr>path = ''email'', isSortable = True\<rparr>, property_options = Absent\<rparr>]"
proof -
  have a: "whereProperties (options ordered_decorator) place_list = Some [''password'', ''email'']"
    by (simp add: ordered_decorator_def new_ResourceDecorator_def Let_def)
  have b: "set [''password'', ''email''] \<subseteq> set (map fst (properties ordered_decorator))"
    by (simp add: ordered_decorator_properties example_decorator_properties)
  from getProperties_override [OF a _ b]
  obtain ps
    where ps: "\<forall>PD max_items.
        getProperties (PD :: (int, string) PropertyDecorator_class) ordered_decorator place_list max_items
          = Inr (map Own ps)"
      and m: "map Some ps = map (map_of (properties ordered_decorator)) [''password'', ''email'']"
    by blast
  from m have "ps =
      [\<lparr>property = \<lparr>path = ''password'', isSortable = False\<rparr>, property_options = Absent\<rparr>,
       \<lparr>property = \<lparr>path = ''email'', isSortable = True\<rparr>, property_options = Absent\<rparr>]"
    by (auto simp: ordered_decorator_properties example_decorator_properties)
  with ps a b show ?thesis by simp
qed

subsection \<open>The default order\<close>

lemma example_decorator_orders: "whereProperties (options example_decorator) w = None"
  by (simp only: example_decorator_def new_ResourceDecorator_fields)
    (cases w; simp add: example_options_def)

lemma example_decorator_distinct: "distinct (map fst (properties example_decorator))"
  by (simp add: example_decorator_def new_ResourceDecorator_distinct)

lemma example_decorator_shown:
  "map (pd_position example_PD)
     (filter (\<lambda>p. pd_isVisible example_PD p place_show) (map snd (properties example_decorator)))
   = [100, 7, 100, 3]"
  by (simp add: example_decorator_properties example_PD_def)

lemma example_decorator_edited:
  "map (pd_position example_PD)
     (filter (\<lambda>p. pd_isVisible example_PD p place_edit) (map snd (properties example_decorator)))
   = [100, 7, 3]"
  by (simp add: example_decorator_properties example_PD_def)

lemma sort_shown: "sort [100, 7, 100, 3 :: int] = [3, 7, 100, 100]"
  by (simp add: sort_key_def)

lemma sort_edited: "sort [100, 7, 3 :: int] = [3, 7, 100]"
  by (simp add: sort_key_def)

lemma example_decorator_show_positions:
  "result_positions example_PD (getProperties example_PD example_decorator place_show 0)
     = Inr [Some 3, Some 7, Some 100, Some 100]"
proof -
  have "\<not> nonempty_array (whereProperties (options example_decorator) place_show)"
    by (simp only: example_decorator_orders) (simp add: nonempty_array_def)
  from getProperties_visible_sorted [OF example_decorator_distinct this, of example_PD]
  obtain ps
    where same: "mset ps = mset (filter (\<lambda>p. pd_isVisible example_PD p place_show)
        (map snd (properties example_decorator)))"
      and ascending: "sorted (map (pd_position example_PD) ps)"
      and result: "getProperties example_PD example_decorator place_show 0 = Inr (map Own ps)"
    by auto
  have "map (pd_position example_PD) ps = [3, 7, 100, 100]"
    using sorted_positions [OF same ascending]
    by (simp add: example_decorator_shown sort_shown)
  then show ?thesis
    by (simp only: result result_positions_own) simp
qed

text \<open>
  Claim C2, as the code has it. For a decorator built from a resource and options that
  give no order for the place, \<^verbatim>\<open>getProperties\<close> with \<^verbatim>\<open>max\<close> zero returns the
  decorators that are visible in the place, each as often as the properties hold it, in
  ascending order of position: equal positions may follow each other, and the order is
  strictly ascending when the visible decorators have pairwise distinct positions. With
  a nonzero \<^verbatim>\<open>max\<close> the result is the first \<^verbatim>\<open>max\<close> entries of that list.
\<close>

theorem getProperties_default_order:
  assumes "whereProperties opts w = None"
  shows "\<exists>ps. getProperties PD (new_ResourceDecorator ACTIONS res opts) w 0 = Inr (map Own ps)
     \<and> mset ps = mset (filter (\<lambda>p. pd_isVisible PD p w)
                      (map snd (properties (new_ResourceDecorator ACTIONS res opts))))
     \<and> sorted (map (pd_position PD) ps)
     \<and> (distinct (map (pd_position PD) (filter (\<lambda>p. pd_isVisible PD p w)
                      (map snd (properties (new_ResourceDecorator ACTIONS res opts)))))
          \<longrightarrow> sorted_wrt (<) (map (pd_position PD) ps))
     \<and> (\<forall>max_items. max_items \<noteq> 0 \<longrightarrow>
          getProperties PD (new_ResourceDecorator ACTIONS res opts) w max_items
            = Inr (map Own (take max_items ps)))"
proof -
  let ?d = "new_ResourceDecorator ACTIONS res opts"
  let ?visible = "filter (\<lambda>p. pd_isVisible PD p w) (map snd (properties ?d))"
  have no: "\<not> nonempty_array (whereProperties (options ?d) w)"
    using assms by (simp add: new_ResourceDecorator_fields nonempty_array_def)
  from getProperties_visible_sorted [OF new_ResourceDecorator_distinct no, of PD]
  obtain ps where same: "mset ps = mset ?visible"
    and ascending: "sorted (map (pd_position PD) ps)"
    and result: "\<And>m. getProperties PD ?d w m = Inr (map Own (if m \<noteq> 0 then take m ps else ps))"
    by blast
  show ?thesis
  proof (intro exI [of _ ps] conjI allI impI)
    show "getProperties PD ?d w 0 = Inr (map Own ps)"
      by (simp add: result)
    show "mset ps = mset ?visible" by (rule same)
    show "sorted (map (pd_position PD) ps)" by (rule ascending)
    show "sorted_wrt (<) (map (pd_position PD) ps)"
      if "distinct (map (pd_position PD) ?visible)"
      using same ascending that by (rule sorted_distinct_strict)
    show "getProperties PD ?d w m = Inr (map Own (take m ps))" if "m \<noteq> 0" for m
      using that by (simp add: result)
  qed
qed

theorem getProperties_default_order_witness:
  "whereProperties example_options place_show = None
   \<and> result_positions example_PD (getProperties example_PD example_decorator place_show 0)
       = Inr [Some 3, Some 7, Some 100, Some 100]
   \<and> sorted [3, 7, 100, 100 :: int]
   \<and> result_positions example_PD (getProperties example_PD example_decorator place_show 2)
       = Inr [Some 3, Some 7]
   \<and> whereProperties example_options place_edit = None
   \<and> result_positions example_PD (getProperties example_PD example_decorator place_edit 0)
       = Inr [Some 3, Some 7, Some 100]
   \<and> sorted_wrt (<) [3, 7, 100 :: int]"
proof -
  have a: "whereProperties example_options place_show = None"
    and b: "whereProperties example_options place_edit = None"
    by (simp_all add: example_options_def)
  from getProperties_default_order [OF a, of example_PD example_ACTIONS example_resource]
  obtain ps where ps: "getProperties example_PD example_decorator place_show 0 = Inr (map Own ps)"
    and same: "mset ps = mset (filter (\<lambda>p. pd_isVisible example_PD p place_show)
        (map snd (properties example_decorator)))"
    and ascending: "sorted (map (pd_position example_PD) ps)"
    and cut: "\<forall>max_items. max_items \<noteq> 0 \<longrightarrow>
          getProperties example_PD example_decorator place_show max_items
            = Inr (map Own (take max_items ps))"
    unfolding example_decorator_def [symmetric] by blast
  have shown: "map (pd_position example_PD) ps = [3, 7, 100, 100]"
    using sorted_positions [OF same ascending]
    by (simp add: example_decorator_shown sort_shown)
  from cut have two: "getProperties example_PD example_decorator place_show 2
      = Inr (map Own (take 2 ps))"
    by simp
  from getProperties_default_order [OF b, of example_PD example_ACTIONS example_resource]
  obtain qs where qs: "getProperties example_PD example_decorator place_edit 0 = Inr (map Own qs)"
    and same': "mset qs = mset (filter (\<lambda>p. pd_isVisible example_PD p place_edit)
        (map snd (properties example_decorator)))"
    and ascending': "sorted (map (pd_position example_PD) qs)"
    and strict: "distinct (map (pd_position example_PD)
          (filter (\<lambda>p. pd_isVisible example_PD p place_edit)
             (map snd (properties example_decorator))))
        \<longrightarrow> sorted_wrt (<) (map (pd_position example_PD) qs)"
    unfolding example_decorator_def [symmetric] by blast
  have edited: "map (pd_position example_PD) qs = [3, 7, 100]"
    using sorted_positions [OF same' ascending']
    by (simp add: example_decorator_edited sort_edited)
  from strict have "sorted_wrt (<) (map (pd_position example_PD) qs)"
    by (simp add: example_decorator_edited)
  then have strictly: "sorted_wrt (<) [3, 7, 100 :: int]"
    by (simp only: edited)
  have "result_positions example_PD (getProperties example_PD example_decorator place_show 0)
       = Inr [Some 3, Some 7, Some 100, Some 100]"
    by (simp only: ps result_positions_own shown) simp
  moreover have "result_positions example_PD (getProperties example_PD example_decorator place_show 2)
       = Inr [Some 3, Some 7]"
  proof -
    have "map (pd_position example_PD) (take 2 ps) = [3, 7]"
      by (simp only: take_map [symmetric] shown) simp
    then show ?thesis
      by (simp only: two result_positions_own) simp
  qed
  moreover have "result_positions example_PD (getProperties example_PD example_decorator place_edit 0)
       = Inr [Some 3, Some 7, Some 100]"
    by (simp only: qs result_positions_own edited) simp
  moreover have "sorted [3, 7, 100, 100 :: int]"
    using ascending by (simp only: shown)
  ultimately show ?thesis
    using a b strictly by blast
qed

text \<open>
  The claim as the spec states it asks for a strictly ascending order. The instance
  shows two properties of position 100: their positions follow each other, in whatever
  order the two come.
\<close>

theorem getProperties_not_strictly_ascending:
  "whereProperties (options example_decorator) place_show = None
   \<and> result_positions example_PD (getProperties example_PD example_decorator place_show 0)
       = Inr [Some 3, Some 7, Some 100, Some 100]
   \<and> \<not> sorted_wrt (<) [3, 7, 100, 100 :: int]"
  by (simp only: example_decorator_orders example_decorator_show_positions) simp

subsection \<open>The list\<close>

lemma capped_decorator_order: "listProperties (options capped_decorator) = None"
  by (simp add: capped_decorator_def new_ResourceDecorator_def wide_options_def Let_def)

text \<open>
  Claim C8, as the code has it. \<^verbatim>\<open>getListProperties()\<close> is
  \<^verbatim>\<open>getProperties({where: list, max: 8})\<close>. Where the options give no non-empty
  \<^verbatim>\<open>listProperties\<close> it returns at most 8 entries; where they give a non-empty one whose
  names are all keys of the properties, it returns one entry for each name, however
  many there are.
\<close>

theorem getListProperties_cap:
  "getListProperties PD this = getProperties PD this place_list 8
   \<and> (\<not> nonempty_array (listProperties (options this)) \<longrightarrow>
        (\<exists>ps. getListProperties PD this = Inr ps \<and> length ps \<le> 8))
   \<and> (\<forall>keys. listProperties (options this) = Some keys \<and> keys \<noteq> []
          \<and> set keys \<subseteq> set (map fst (properties this)) \<longrightarrow>
        (\<exists>ps. getListProperties PD this = Inr ps \<and> length ps = length keys))"
proof (intro conjI impI allI)
  show "getListProperties PD this = getProperties PD this place_list 8"
    by (simp add: getListProperties_def DEFAULT_MAX_COLUMNS_IN_LIST_def)
  show "\<exists>ps. getListProperties PD this = Inr ps \<and> length ps \<le> 8"
    if "\<not> nonempty_array (listProperties (options this))"
    using that
    by (simp add: getListProperties_def DEFAULT_MAX_COLUMNS_IN_LIST_def getProperties_def Let_def)
  show "\<exists>ps. getListProperties PD this = Inr ps \<and> length ps = length keys"
    if "listProperties (options this) = Some keys \<and> keys \<noteq> []
          \<and> set keys \<subseteq> set (map fst (properties this))" for keys
    using that
    by (simp add: getListProperties_def getProperties_def nonempty_array_def map_throwing_found)
qed

theorem getListProperties_cap_witness:
  "\<not> nonempty_array (listProperties (options capped_decorator))
   \<and> length (filter (\<lambda>p. pd_isVisible example_PD p place_list)
        (map snd (properties capped_decorator))) = 9
   \<and> (\<exists>ps. getListProperties example_PD capped_decorator = Inr ps \<and> length ps = 8)"
proof -
  have a: "\<not> nonempty_array (listProperties (options capped_decorator))"
    by (simp add: capped_decorator_order nonempty_array_def)
  have b: "length (filter (\<lambda>p. pd_isVisible example_PD p place_list)
        (map snd (properties capped_decorator))) = 9"
    by (simp add: capped_decorator_properties wide_columns_def example_PD_def)
  have "distinct (map fst (properties capped_decorator))"
    by (simp add: capped_decorator_def new_ResourceDecorator_distinct)
  from getProperties_visible_sorted [OF this, of place_list example_PD] a
  obtain ps
    where "mset ps = mset (filter (\<lambda>p. pd_isVisible example_PD p place_list)
        (map snd (properties capped_decorator)))"
      and "getProperties example_PD capped_decorator place_list 8 = Inr (map Own (take 8 ps))"
    by auto
  moreover from this(1) have "length ps = 9"
    using b by (metis size_mset)
  ultimately show ?thesis
    using getListProperties_cap [of example_PD capped_decorator] a b by auto
qed

text \<open>
  The claim as the spec states it bounds the list by 8 for every configuration. The
  resource of nine columns, all named in \<^verbatim>\<open>listProperties\<close>, lists nine.
\<close>

theorem getListProperties_nine:
  "getListProperties example_PD wide_decorator = Inr (map Own wide_columns)
   \<and> \<not> length (map Own wide_columns) \<le> 8"
  by (simp add: wide_decorator_list) (simp add: wide_columns_def)

subsection \<open>An empty order\<close>

text \<open>
  Claim C10. An empty order for a place is no order: \<^verbatim>\<open>getProperties\<close> returns with it
  what it returns when the options give none for the place, which for properties of
  distinct keys is the visible decorators in ascending order of position, cut to
  \<^verbatim>\<open>max\<close> when that is not zero.
\<close>

theorem getProperties_empty_override:
  "getProperties PD (this\<lparr>options := with_whereProperties (options this) w (Some [])\<rparr>) w max_items
     = getProperties PD (this\<lparr>options := with_whereProperties (options this) w None\<rparr>) w max_items
   \<and> (distinct (map fst (properties this)) \<longrightarrow>
        (\<exists>ps. mset ps = mset (filter (\<lambda>p. pd_isVisible PD p w) (map snd (properties this)))
           \<and> sorted (map (pd_position PD) ps)
           \<and> (\<forall>m. getProperties PD
                     (this\<lparr>options := with_whereProperties (options this) w (Some [])\<rparr>) w m
                   = Inr (map Own (if m \<noteq> 0 then take m ps else ps)))))"
proof (intro conjI impI)
  show "getProperties PD (this\<lparr>options := with_whereProperties (options this) w (Some [])\<rparr>) w max_items
     = getProperties PD (this\<lparr>options := with_whereProperties (options this) w None\<rparr>) w max_items"
    by (rule getProperties_not_overridden) (simp_all add: whereProperties_with nonempty_array_def)
  assume "distinct (map fst (properties this))"
  then show "\<exists>ps. mset ps = mset (filter (\<lambda>p. pd_isVisible PD p w) (map snd (properties this)))
           \<and> sorted (map (pd_position PD) ps)
           \<and> (\<forall>m. getProperties PD
                     (this\<lparr>options := with_whereProperties (options this) w (Some [])\<rparr>) w m
                   = Inr (map Own (if m \<noteq> 0 then take m ps else ps)))"
    using getProperties_visible_sorted
      [of "this\<lparr>options := with_whereProperties (options this) w (Some [])\<rparr>" w PD]
    by (simp add: whereProperties_with nonempty_array_def)
qed

theorem getProperties_empty_override_witness:
  "whereProperties
      (options (example_decorator
         \<lparr>options := with_whereProperties (options example_decorator) place_show (Some [])\<rparr>))
      place_show = Some []
   \<and> distinct (map fst (properties example_decorator))
   \<and> result_positions example_PD
       (getProperties example_PD
          (example_decorator
             \<lparr>options := with_whereProperties (options example_decorator) place_show (Some [])\<rparr>)
          place_show 0)
     = Inr [Some 3, Some 7, Some 100, Some 100]
   \<and> result_positions example_PD
       (getProperties example_PD
          (example_decorator
             \<lparr>options := with_whereProperties (options example_decorator) place_show (Some [])\<rparr>)
          place_show 3)
     = Inr [Some 3, Some 7, Some 100]"
proof -
  let ?d = "example_decorator
      \<lparr>options := with_whereProperties (options example_decorator) place_show (Some [])\<rparr>"
  from getProperties_empty_override
    [of example_PD example_decorator place_show 0, THEN conjunct2, THEN mp,
      OF example_decorator_distinct]
  obtain ps
    where same: "mset ps = mset (filter (\<lambda>p. pd_isVisible example_PD p place_show)
        (map snd (properties example_decorator)))"
      and ascending: "sorted (map (pd_position example_PD) ps)"
      and result: "\<And>m. getProperties example_PD ?d place_show m
          = Inr (map Own (if m \<noteq> 0 then take m ps else ps))"
    by blast
  have shown: "map (pd_position example_PD) ps = [3, 7, 100, 100]"
    using sorted_positions [OF same ascending]
    by (simp add: example_decorator_shown sort_shown)
  have "map (pd_position example_PD) (take 3 ps) = [3, 7, 100]"
    by (simp only: take_map [symmetric] shown) simp
  then have "result_positions example_PD (getProperties example_PD ?d place_show 3)
      = Inr [Some 3, Some 7, Some 100]"
    by (simp only: result result_positions_own) simp
  moreover have "result_positions example_PD (getProperties example_PD ?d place_show 0)
      = Inr [Some 3, Some 7, Some 100, Some 100]"
    using shown by (simp only: result result_positions_own) simp
  ultimately show ?thesis
    using example_decorator_distinct by (simp add: whereProperties_with)
qed

subsection \<open>The title\<close>






subsection \<open>The actions of a resource\<close>

lemma example_decorator_actions:
  "actions example_decorator =
     [(''new'',
       \<lparr>action = \<lparr>action_name = Some ''new'', action_label = Some ''new'',
          action_scope = Some scope_resource, action_component = None,
          action_isVisible = Some True, action_isAccessible = None\<rparr>\<rparr>),
      (''delete'',
       \<lparr>action = \<lparr>action_name = Some ''delete'', action_label = Some ''Remove'',
          action_scope = Some scope_record, action_component = Some False,
          action_isVisible = Some True, action_isAccessible = Some True\<rparr>\<rparr>),
      (''export'',
       \<lparr>action = \<lparr>action_name = Some ''export'', action_label = Some ''export'',
          action_scope = Some scope_resource, action_component = None,
          action_isVisible = None, action_isAccessible = Some False\<rparr>\<rparr>)]"
  by (simp add: example_decorator_def new_ResourceDecorator_def decorateActions_def
      mergedActions_def example_ACTIONS_def example_options_def merge_action_def
      merge_field_def or_string_def object_set_def not_array_index is_digit_def)

text \<open>
  Claim C7. An action is among \<^verbatim>\<open>resourceActions(currentAdmin)\<close> exactly when it is an
  action of the decorator, of the resource type, visible for the current admin and
  accessible for the current admin; so an action that is not accessible is left out,
  visible or not. The result keeps the order of the actions.
\<close>

theorem resourceActions_iff:
  "(a \<in> set (resourceActions AD this currentAdmin) \<longleftrightarrow>
      a \<in> set (map snd (actions this)) \<and> ad_isResourceType AD a
        \<and> ad_isVisible AD a currentAdmin \<and> ad_isAccessible AD a currentAdmin)
   \<and> (\<not> ad_isAccessible AD a currentAdmin \<longrightarrow> a \<notin> set (resourceActions AD this currentAdmin))
   \<and> resourceActions AD this currentAdmin
        = filter (\<lambda>a. ad_isResourceType AD a \<and> ad_isVisible AD a currentAdmin
                     \<and> ad_isAccessible AD a currentAdmin) (map snd (actions this))"
  by (auto simp: resourceActions_def)

theorem resourceActions_iff_witness:
  "\<lparr>action = \<lparr>action_name = Some ''export'', action_label = Some ''export'',
          action_scope = Some scope_resource, action_component = None,
          action_isVisible = None, action_isAccessible = Some False\<rparr>\<rparr>
      \<in> set (map snd (actions example_decorator))
   \<and> ad_isResourceType example_AD
        \<lparr>action = \<lparr>action_name = Some ''export'', action_label = Some ''export'',
          action_scope = Some scope_resource, action_component = None,
          action_isVisible = None, action_isAccessible = Some False\<rparr>\<rparr>
   \<and> ad_isVisible example_AD
        \<lparr>action = \<lparr>action_name = Some ''export'', action_label = Some ''export'',
          action_scope = Some scope_resource, action_component = None,
          action_isVisible = None, action_isAccessible = Some False\<rparr>\<rparr> (Some ''admin'')
   \<and> \<not> ad_isAccessible example_AD
        \<lparr>action = \<lparr>action_name = Some ''export'', action_label = Some ''export'',
          action_scope = Some scope_resource, action_component = None,
          action_isVisible = None, action_isAccessible = Some False\<rparr>\<rparr> (Some ''admin'')
   \<and> \<lparr>action = \<lparr>action_name = Some ''export'', action_label = Some ''export'',
          action_scope = Some scope_resource, action_component = None,
          action_isVisible = None, action_isAccessible = Some False\<rparr>\<rparr>
      \<notin> set (resourceActions example_AD example_decorator (Some ''admin''))
   \<and> \<lparr>action = \<lparr>action_name = Some ''new'', action_label = Some ''new'',
          action_scope = Some scope_resource, action_component = None,
          action_isVisible = Some True, action_isAccessible = None\<rparr>\<rparr>
      \<in> set (resourceActions example_AD example_decorator (Some ''admin''))"
proof -
  let ?export = "\<lparr>action = \<lparr>action_name = Some ''export'', action_label = Some ''export'',
          action_scope = Some scope_resource, action_component = None,
          action_isVisible = None, action_isAccessible = Some False\<rparr>\<rparr>"
  let ?new = "\<lparr>action = \<lparr>action_name = Some ''new'', action_label = Some ''new'',
          action_scope = Some scope_resource, action_component = None,
          action_isVisible = Some True, action_isAccessible = None\<rparr>\<rparr>"
  have facts: "?export \<in> set (map snd (actions example_decorator))"
    "ad_isResourceType example_AD ?export"
    "ad_isVisible example_AD ?export (Some ''admin'')"
    "\<not> ad_isAccessible example_AD ?export (Some ''admin'')"
    "?new \<in> set (map snd (actions example_decorator))"
    "ad_isResourceType example_AD ?new"
    "ad_isVisible example_AD ?new (Some ''admin'')"
    "ad_isAccessible example_AD ?new (Some ''admin'')"
    by (simp_all add: example_decorator_actions example_AD_def)
  from resourceActions_iff [of ?export example_AD example_decorator "Some ''admin''"] facts
  have "?export \<notin> set (resourceActions example_AD example_decorator (Some ''admin''))"
    by blast
  moreover from resourceActions_iff [of ?new example_AD example_decorator "Some ''admin''"] facts
  have "?new \<in> set (resourceActions example_AD example_decorator (Some ''admin''))"
    by blast
  ultimately show ?thesis using facts by blast
qed

subsection \<open>The decorated actions\<close>

lemma merge_keys:
  "set (map fst (merge object source)) = set (map fst object) \<union> set (map fst source)"
  by (induction object source rule: merge.induct) (auto simp: object_set_keys)

lemma merge_distinct:
  "distinct (map fst object) \<Longrightarrow> distinct (map fst (merge object source))"
  by (induction object source rule: merge.induct) (simp_all add: object_set_distinct)

lemma merge_lookup:
  "distinct (map fst source) \<Longrightarrow>
   map_of (merge object source) key
     = (case map_of source key of
          None \<Rightarrow> map_of object key
        | Some srcValue \<Rightarrow>
            Some (case map_of object key of
                    None \<Rightarrow> srcValue
                  | Some objValue \<Rightarrow> merge_action objValue srcValue))"
proof (induction object source rule: merge.induct)
  case (1 object)
  then show ?case by simp
next
  case (2 object k srcValue source)
  then have "k \<notin> set (map fst source)" and "distinct (map fst source)" by simp_all
  then have "map_of source k = None" by (simp add: map_of_eq_None_iff)
  with 2 show ?case
    by (auto simp: object_set_map_of split: option.splits)
qed

lemma merge_into_empty:
  "distinct (map fst source) \<Longrightarrow> map_of (merge [] source) key = map_of source key"
  by (simp add: merge_lookup split: option.splits)

lemma decorateActions_keys:
  "map fst (decorateActions ACTIONS this) = map fst (mergedActions ACTIONS this)"
  by (simp add: decorateActions_def case_prod_beta comp_def)

lemma map_of_map_entries:
  "map_of (map (\<lambda>(key, a). (key, f key a)) xs) key = map_option (f key) (map_of xs key)"
  by (induction xs) auto

lemma decorateActions_lookup:
  "map_of (decorateActions ACTIONS this) key
     = map_option
         (\<lambda>a. \<lparr>action =
                  a\<lparr>action_name := Some (or_string (action_name a) key),
                    action_label := Some (or_string (action_label a) key)\<rparr>\<rparr>)
         (map_of (mergedActions ACTIONS this) key)"
  unfolding decorateActions_def by (rule map_of_map_entries)

lemma mergedActions_lookup:
  assumes "distinct (map fst ACTIONS)"
    and "user = (case options_actions (options this) of None \<Rightarrow> [] | Some a \<Rightarrow> a)"
    and "distinct (map fst user)"
  shows "map_of (mergedActions ACTIONS this) key
     = (case map_of user key of
          None \<Rightarrow> map_of ACTIONS key
        | Some ov \<Rightarrow>
            Some (case map_of ACTIONS key of None \<Rightarrow> ov | Some dflt \<Rightarrow> merge_action dflt ov))"
proof -
  have "map_of (merge [] ACTIONS) key = map_of ACTIONS key"
    using assms(1) by (rule merge_into_empty)
  moreover have "mergedActions ACTIONS this = merge (merge [] ACTIONS) user"
    by (simp add: mergedActions_def assms(2))
  ultimately show ?thesis
    by (simp only: merge_lookup [OF assms(3)])
qed

text \<open>
  Claim C4. The keys of the decorated actions include every key of the built-in
  actions. An action that is both built in and overridden by the user has, field by
  field, the user's value where the user gave one and the built-in value elsewhere; so
  an override of the label alone leaves scope, component and both predicates as they
  are built in. A name or a label that is absent after the merge is the key.
\<close>

theorem decorateActions_merged:
  assumes "distinct (map fst ACTIONS)"
    and "user = (case options_actions (options this) of None \<Rightarrow> [] | Some a \<Rightarrow> a)"
    and "distinct (map fst user)"
  shows "set (map fst ACTIONS) \<subseteq> set (map fst (decorateActions ACTIONS this))
     \<and> (\<forall>key dflt ov.
          map_of ACTIONS key = Some dflt \<and> map_of user key = Some ov \<longrightarrow>
          (\<exists>ad. map_of (decorateActions ACTIONS this) key = Some ad
             \<and> action_scope (action ad) = merge_field (action_scope dflt) (action_scope ov)
             \<and> action_component (action ad)
                 = merge_field (action_component dflt) (action_component ov)
             \<and> action_isVisible (action ad)
                 = merge_field (action_isVisible dflt) (action_isVisible ov)
             \<and> action_isAccessible (action ad)
                 = merge_field (action_isAccessible dflt) (action_isAccessible ov)
             \<and> action_label (action ad)
                 = Some (or_string (merge_field (action_label dflt) (action_label ov)) key)
             \<and> action_name (action ad)
                 = Some (or_string (merge_field (action_name dflt) (action_name ov)) key)))
     \<and> (\<forall>key dflt l.
          map_of ACTIONS key = Some dflt
            \<and> map_of user key
                = Some \<lparr>action_name = None, action_label = Some l, action_scope = None,
                        action_component = None, action_isVisible = None,
                        action_isAccessible = None\<rparr>
            \<and> l \<noteq> [] \<longrightarrow>
          map_of (decorateActions ACTIONS this) key
            = Some \<lparr>action = dflt\<lparr>action_name := Some (or_string (action_name dflt) key),
                                   action_label := Some l\<rparr>\<rparr>)
     \<and> (\<forall>key dflt.
          map_of ACTIONS key = Some dflt \<and> map_of user key = None \<longrightarrow>
          map_of (decorateActions ACTIONS this) key
            = Some \<lparr>action = dflt\<lparr>action_name := Some (or_string (action_name dflt) key),
                                   action_label := Some (or_string (action_label dflt) key)\<rparr>\<rparr>)
     \<and> (\<forall>key a.
          map_of (mergedActions ACTIONS this) key = Some a \<longrightarrow>
          (\<exists>ad. map_of (decorateActions ACTIONS this) key = Some ad
             \<and> (action_name a = None \<longrightarrow> action_name (action ad) = Some key)
             \<and> (action_label a = None \<longrightarrow> action_label (action ad) = Some key)
             \<and> action_name (action ad) \<noteq> None \<and> action_label (action ad) \<noteq> None))"
proof (intro conjI allI impI)
  note merged = mergedActions_lookup [OF assms]
  show "set (map fst ACTIONS) \<subseteq> set (map fst (decorateActions ACTIONS this))"
    by (simp only: decorateActions_keys mergedActions_def merge_keys) auto
  show "\<exists>ad. map_of (decorateActions ACTIONS this) key = Some ad
             \<and> action_scope (action ad) = merge_field (action_scope dflt) (action_scope ov)
             \<and> action_component (action ad)
                 = merge_field (action_component dflt) (action_component ov)
             \<and> action_isVisible (action ad)
                 = merge_field (action_isVisible dflt) (action_isVisible ov)
             \<and> action_isAccessible (action ad)
                 = merge_field (action_isAccessible dflt) (action_isAccessible ov)
             \<and> action_label (action ad)
                 = Some (or_string (merge_field (action_label dflt) (action_label ov)) key)
             \<and> action_name (action ad)
                 = Some (or_string (merge_field (action_name dflt) (action_name ov)) key)"
    if "map_of ACTIONS key = Some dflt \<and> map_of user key = Some ov" for key dflt ov
    using that by (simp add: decorateActions_lookup merged merge_action_def)
  show "map_of (decorateActions ACTIONS this) key
            = Some \<lparr>action = dflt\<lparr>action_name := Some (or_string (action_name dflt) key),
                                   action_label := Some l\<rparr>\<rparr>"
    if "map_of ACTIONS key = Some dflt
            \<and> map_of user key
                = Some \<lparr>action_name = None, action_label = Some l, action_scope = None,
                        action_component = None, action_isVisible = None,
                        action_isAccessible = None\<rparr>
            \<and> l \<noteq> []" for key dflt l
    using that
    by (cases dflt) (simp add: decorateActions_lookup merged merge_action_def merge_field_def or_string_def)
  show "map_of (decorateActions ACTIONS this) key
            = Some \<lparr>action = dflt\<lparr>action_name := Some (or_string (action_name dflt) key),
                                   action_label := Some (or_string (action_label dflt) key)\<rparr>\<rparr>"
    if "map_of ACTIONS key = Some dflt \<and> map_of user key = None" for key dflt
    using that by (simp add: decorateActions_lookup merged)
  show "\<exists>ad. map_of (decorateActions ACTIONS this) key = Some ad
             \<and> (action_name a = None \<longrightarrow> action_name (action ad) = Some key)
             \<and> (action_label a = None \<longrightarrow> action_label (action ad) = Some key)
             \<and> action_name (action ad) \<noteq> None \<and> action_label (action ad) \<noteq> None"
    if "map_of (mergedActions ACTIONS this) key = Some a" for key a
    using that by (simp add: decorateActions_lookup or_string_def)
qed

lemma example_decorator_overrides:
  "options_actions (options example_decorator) =
     Some
       [(''delete'',
         \<lparr>action_name = None, action_label = Some ''Remove'', action_scope = None,
          action_component = None, action_isVisible = None, action_isAccessible = None\<rparr>),
        (''export'',
         \<lparr>action_name = None, action_label = None, action_scope = Some scope_resource,
          action_component = None, action_isVisible = None,
          action_isAccessible = Some False\<rparr>)]"
  by (simp add: example_decorator_def new_ResourceDecorator_def example_options_def Let_def)

theorem decorateActions_merged_witness:
  "distinct (map fst example_ACTIONS)
   \<and> set (map fst example_ACTIONS)
        \<subseteq> set (map fst (decorateActions example_ACTIONS example_decorator))
   \<and> map_of example_ACTIONS ''delete''
       = Some \<lparr>action_name = Some ''delete'', action_label = Some ''Delete'',
               action_scope = Some scope_record, action_component = Some False,
               action_isVisible = Some True, action_isAccessible = Some True\<rparr>
   \<and> map_of (decorateActions example_ACTIONS example_decorator) ''delete''
       = Some \<lparr>action =
                 \<lparr>action_name = Some ''delete'', action_label = Some ''Remove'',
                  action_scope = Some scope_record, action_component = Some False,
                  action_isVisible = Some True, action_isAccessible = Some True\<rparr>\<rparr>
   \<and> map_of (decorateActions example_ACTIONS example_decorator) ''new''
       = Some \<lparr>action =
                 \<lparr>action_name = Some ''new'', action_label = Some ''new'',
                  action_scope = Some scope_resource, action_component = None,
                  action_isVisible = Some True, action_isAccessible = None\<rparr>\<rparr>"
proof -
  let ?user =
    "[(''delete'',
         \<lparr>action_name = None, action_label = Some ''Remove'', action_scope = None,
          action_component = None :: bool option, action_isVisible = None,
          action_isAccessible = None\<rparr>),
        (''export'',
         \<lparr>action_name = None, action_label = None, action_scope = Some scope_resource,
          action_component = None, action_isVisible = None,
          action_isAccessible = Some False\<rparr>)]"
  let ?delete =
    "\<lparr>action_name = Some ''delete'', action_label = Some ''Delete'',
      action_scope = Some scope_record, action_component = Some False,
      action_isVisible = Some True, action_isAccessible = Some True\<rparr>"
  let ?new =
    "\<lparr>action_name = Some ''new'', action_label = None, action_scope = Some scope_resource,
      action_component = None, action_isVisible = Some True,
      action_isAccessible = None :: bool option\<rparr>"
  have a: "distinct (map fst example_ACTIONS)"
    by (simp add: example_ACTIONS_def)
  have b: "?user = (case options_actions (options example_decorator) of
                      None \<Rightarrow> [] | Some a \<Rightarrow> a)"
    by (simp add: example_decorator_overrides)
  have c: "distinct (map fst ?user)" by simp
  note merged = decorateActions_merged [OF a b c]
  have d: "map_of example_ACTIONS ''delete'' = Some ?delete"
    and n: "map_of example_ACTIONS ''new'' = Some ?new"
    by (simp_all add: example_ACTIONS_def)
  have "map_of (decorateActions example_ACTIONS example_decorator) ''delete''
      = Some \<lparr>action = ?delete\<lparr>action_name := Some (or_string (action_name ?delete) ''delete''),
                                  action_label := Some ''Remove''\<rparr>\<rparr>"
    using merged [THEN conjunct2, THEN conjunct2, THEN conjunct1, THEN spec, THEN spec, THEN spec,
        of "''delete''" ?delete "''Remove''"] d
    by simp
  moreover have "map_of (decorateActions example_ACTIONS example_decorator) ''new''
      = Some \<lparr>action = ?new\<lparr>action_name := Some (or_string (action_name ?new) ''new''),
                               action_label := Some (or_string (action_label ?new) ''new'')\<rparr>\<rparr>"
    using merged [THEN conjunct2, THEN conjunct2, THEN conjunct2, THEN conjunct1, THEN spec, THEN spec,
        of "''new''" ?new] n
    by simp
  ultimately show ?thesis
    using a d merged [THEN conjunct1] by (simp add: or_string_def)
qed

subsection \<open>The parent\<close>

lemma toJSON_parent:
  "toJSON PD AD url this currentAdmin = Inr j \<Longrightarrow> json_parent j = getParent this"
  by (auto simp: toJSON_def Let_def split: option.splits sum.splits)

lemma decorators_toJSON:
  "map_throwing (member_toJSON PD) (map Own ps) = Inr (map (pd_toJSON PD) ps)"
  by (induction ps) (simp_all add: member_toJSON_def)

lemma toJSON_returns:
  assumes "properties this \<noteq> []" and "distinct (map fst (properties this))"
    and "\<forall>w. \<not> nonempty_array (whereProperties (options this) w)"
  shows "\<exists>j. toJSON PD AD url this currentAdmin = Inr j"
proof -
  obtain kv rest where shape: "properties this = kv # rest"
    using assms(1) by (cases "properties this") auto
  have "titleProperty PD this \<noteq> None"
    by (simp add: titleProperty_def shape split: option.splits)
  then obtain t where t: "titleProperty PD this = Some t" by blast
  have "\<exists>js. properties_toJSON PD this w m = Inr js" for w m
  proof -
    from getProperties_visible_sorted [OF assms(2), of w PD] assms(3)
    obtain ps where "getProperties PD this w m = Inr (map Own (if m \<noteq> 0 then take m ps else ps))"
      by blast
    then show ?thesis
      by (simp add: properties_toJSON_def decorators_toJSON)
  qed
  then obtain lps eps sps fps
    where "properties_toJSON PD this place_list DEFAULT_MAX_COLUMNS_IN_LIST = Inr lps"
      and "properties_toJSON PD this place_edit 0 = Inr eps"
      and "properties_toJSON PD this place_show 0 = Inr sps"
      and "properties_toJSON PD this place_filter 0 = Inr fps"
    by metis
  with t show ?thesis
    by (simp add: toJSON_def Let_def)
qed

lemma capped_decorator_orders: "whereProperties (options capped_decorator) w = None"
  by (simp only: capped_decorator_def new_ResourceDecorator_fields)
    (cases w; simp add: wide_options_def)

text \<open>
  Claim C9. Where the options name no parent, the parent of the resource, and so the
  \<^verbatim>\<open>parent\<close> field of \<^verbatim>\<open>toJSON()\<close> whenever that returns, has the database name of the
  resource as its name; its icon is \<open>icon-\<close> followed by the database type when that is
  a non-empty string, and \<open>icon-database\<close> when the database type is absent or empty.
  \<^verbatim>\<open>toJSON()\<close> does return for a resource that has a property, under keys that are
  distinct, and options without an order of the user's.
\<close>

theorem getParent_default:
  assumes "options_parent (options this) = None"
  shows "parent_name (getParent this) = ParentString (databaseName (resource this))
     \<and> (\<forall>t. databaseType (resource this) = Some t \<and> t \<noteq> []
          \<longrightarrow> parent_icon (getParent this) = ''icon-'' @ t)
     \<and> (databaseType (resource this) = None \<or> databaseType (resource this) = Some []
          \<longrightarrow> parent_icon (getParent this) = ''icon-database'')
     \<and> (\<forall>j. toJSON PD AD url this currentAdmin = Inr j \<longrightarrow> json_parent j = getParent this)
     \<and> (properties this \<noteq> [] \<and> distinct (map fst (properties this))
          \<and> (\<forall>w. \<not> nonempty_array (whereProperties (options this) w))
          \<longrightarrow> (\<exists>j. toJSON PD AD url this currentAdmin = Inr j))"
  using assms toJSON_parent [of PD AD url this currentAdmin]
    toJSON_returns [of this PD AD url currentAdmin]
  by (auto simp: getParent_def truthy_parent_def or_string_def Let_def)

theorem getParent_default_witness:
  "options_parent (options example_decorator) = None
   \<and> databaseType (resource example_decorator) = Some ''mongodb''
   \<and> (\<exists>j. toJSON example_PD example_AD example_url example_decorator (Some ''admin'') = Inr j
         \<and> json_parent j = \<lparr>parent_name = ParentString ''main'', parent_icon = ''icon-mongodb''\<rparr>)
   \<and> options_parent (options capped_decorator) = None
   \<and> databaseType (resource capped_decorator) = None
   \<and> (\<exists>j. toJSON example_PD example_AD example_url capped_decorator None = Inr j
         \<and> json_parent j = \<lparr>parent_name = ParentString ''main'', parent_icon = ''icon-database''\<rparr>)"
proof -
  have a: "options_parent (options example_decorator) = None"
    and a': "databaseType (resource example_decorator) = Some ''mongodb''"
    and a'': "databaseName (resource example_decorator) = ''main''"
    by (simp_all add: example_decorator_def new_ResourceDecorator_fields example_options_def
        example_resource_def)
  have b: "options_parent (options capped_decorator) = None"
    and b': "databaseType (resource capped_decorator) = None"
    and b'': "databaseName (resource capped_decorator) = ''main''"
    by (simp_all add: capped_decorator_def new_ResourceDecorator_fields wide_options_def
        wide_resource_def)
  have pa: "properties example_decorator \<noteq> [] \<and> distinct (map fst (properties example_decorator))
      \<and> (\<forall>w. \<not> nonempty_array (whereProperties (options example_decorator) w))"
    by (simp add: example_decorator_properties example_decorator_orders nonempty_array_def)
  have pb: "properties capped_decorator \<noteq> [] \<and> distinct (map fst (properties capped_decorator))
      \<and> (\<forall>w. \<not> nonempty_array (whereProperties (options capped_decorator) w))"
    by (simp add: capped_decorator_properties capped_decorator_orders nonempty_array_def
        wide_columns_def)
  note ea = getParent_default [OF a, of example_PD example_AD example_url "Some ''admin''"]
  note eb = getParent_default [OF b, of example_PD example_AD example_url None]
  have "getParent example_decorator
      = \<lparr>parent_name = ParentString ''main'', parent_icon = ''icon-mongodb''\<rparr>"
    using ea a' a'' by (cases "getParent example_decorator") simp
  moreover have "getParent capped_decorator
      = \<lparr>parent_name = ParentString ''main'', parent_icon = ''icon-database''\<rparr>"
    using eb b' b'' by (cases "getParent capped_decorator") simp
  ultimately show ?thesis
    using ea eb pa pb a a' b b' by metis
qed

subsection \<open>The decorated properties\<close>











subsection \<open>The lookup of a property\<close>

lemma getPropertyByKey_plain:
  "propertyPath \<notin> set Object_prototype \<Longrightarrow>
   getPropertyByKey this propertyPath
     = (case map_of (properties this) propertyPath of
          None \<Rightarrow>
            Inl (ConfigurationError
              (''there is no property by the name of '' @ [CHR 0x27] @ propertyPath @ [CHR 0x27]
                 @ '' in resource '' @ getResourceName this)
              ''tutorial-04-customizing-resources.html'')
        | Some p \<Rightarrow> Inr (Own p))"
  by (simp add: getPropertyByKey_def object_get_def split: option.splits)

lemma named_decorator_name:
  "getResourceName named_decorator = ''Members''"
  "getResourceName example_decorator = ''User''"
  by (simp_all add: getResourceName_def named_decorator_def example_decorator_def
      new_ResourceDecorator_def example_options_def example_resource_def or_string_def Let_def)

text \<open>
  Claim C6, where the code leaves it. No property of the resource is named
  \<^verbatim>\<open>constructor\<close>, yet \<^verbatim>\<open>this.properties['constructor']\<close> is the member that every object
  inherits, \<^verbatim>\<open>!property\<close> is false, and \<^verbatim>\<open>getPropertyByKey\<close> returns that member and
  throws nothing, where its documentation says that it throws a \<^verbatim>\<open>ConfigurationError\<close>
  when there is no property for the key. At a path that no object inherits it does throw,
  with a message that holds the path and the name that the options give the resource
  (that of the resource itself without one), and at a key it returns the decorator.
\<close>

theorem getPropertyByKey_inherited:
  "map fst (properties named_decorator)
     = [''email'', ''title'', ''password'', ''createdAt'', ''fullName'']
   \<and> getPropertyByKey named_decorator ''constructor'' = Inr (Inherited ''constructor'')
   \<and> getPropertyByKey named_decorator ''zip''
       = Inl (ConfigurationError
           (''there is no property by the name of '' @ [CHR 0x27] @ ''zip'' @ [CHR 0x27]
              @ '' in resource Members'')
           ''tutorial-04-customizing-resources.html'')
   \<and> getPropertyByKey example_decorator ''zip''
       = Inl (ConfigurationError
           (''there is no property by the name of '' @ [CHR 0x27] @ ''zip'' @ [CHR 0x27]
              @ '' in resource User'')
           ''tutorial-04-customizing-resources.html'')
   \<and> getPropertyByKey named_decorator ''title''
       = Inr (Own \<lparr>property = \<lparr>path = ''title'', isSortable = True\<rparr>, property_options = Own 7\<rparr>)"
  by (simp add: getPropertyByKey_def object_get_def Object_prototype_def named_decorator_name
      named_decorator_properties example_decorator_properties)

end
